theory Spec2Isabelle
  imports Main "HOL-Library.Word"
begin

unbundle bit_operations_syntax

section \<open>JavaScript values\<close>

text \<open>
  The request bodies of \<^verbatim>\<open>index.ts\<close> and the payloads of \<^verbatim>\<open>mesh-controller.ts\<close> have
  the TypeScript type \<^verbatim>\<open>any\<close> and come from a JSON parser. A parsed value is a \<open>json\<close>;
  numbers are restricted to the integers a JavaScript number holds exactly (magnitude
  below \<open>2^53\<close>), which JSON.stringify prints in plain decimal. The list
  of a \<open>JObj\<close> is the object's own-property enumeration order (for keys that are not
  array indices: insertion order) and carries each key once. Strings are byte strings
  (UTF-8). A variable that may hold \<^verbatim>\<open>undefined\<close> is a \<open>jsv\<close>, with \<open>None\<close> for
  \<^verbatim>\<open>undefined\<close>.
\<close>

datatype json =
    JNull
  | JBool bool
  | JNum int
  | JStr string
  | JArr "json list"
  | JObj "(string \<times> json) list"

type_synonym jsv = "json option"

text \<open>Destructuring \<^verbatim>\<open>const { k } = req.body\<close>: a missing property is \<^verbatim>\<open>undefined\<close>.\<close>

fun field :: "json \<Rightarrow> string \<Rightarrow> jsv" where
  "field (JObj kvs) k = map_of kvs k"
| "field v k = None"

text \<open>ToBoolean: \<^verbatim>\<open>undefined\<close>, \<^verbatim>\<open>null\<close>, \<^verbatim>\<open>false\<close>, \<^verbatim>\<open>0\<close> and \<^verbatim>\<open>''\<close> are falsy.\<close>

fun truthy :: "jsv \<Rightarrow> bool" where
  "truthy None = False"
| "truthy (Some JNull) = False"
| "truthy (Some (JBool b)) = b"
| "truthy (Some (JNum n)) = (n \<noteq> 0)"
| "truthy (Some (JStr s)) = (s \<noteq> [])"
| "truthy (Some (JArr xs)) = True"
| "truthy (Some (JObj kvs)) = True"

text \<open>The operators \<^verbatim>\<open>!a\<close> and \<^verbatim>\<open>a || b\<close>.\<close>

definition js_not :: "jsv \<Rightarrow> bool" where
  "js_not a = (if truthy a then False else True)"

definition js_or :: "jsv \<Rightarrow> jsv \<Rightarrow> jsv" where
  "js_or a b = (if truthy a then a else b)"

text \<open>JavaScript errors, with the message the source gives them.\<close>

datatype error = Error string | TypeError string | RangeError string

text \<open>
  Property read \<^verbatim>\<open>v.k\<close> for the names the source reads (\<^verbatim>\<open>prompt\<close>, \<^verbatim>\<open>inputMint\<close>, ...):
  a TypeError on \<^verbatim>\<open>undefined\<close> and \<^verbatim>\<open>null\<close>, the property of an object, and
  \<^verbatim>\<open>undefined\<close> on every other value, which has no property of these names.
\<close>

fun member :: "jsv \<Rightarrow> string \<Rightarrow> error + jsv" where
  "member None k = Inl (TypeError (''Cannot read properties of undefined (reading '' @ k @ '')''))"
| "member (Some JNull) k = Inl (TypeError (''Cannot read properties of null (reading '' @ k @ '')''))"
| "member (Some (JObj kvs)) k = Inr (map_of kvs k)"
| "member (Some v) k = Inr None"

subsection \<open>JSON.stringify\<close>

definition digit_char :: "nat \<Rightarrow> char" where
  "digit_char n = ''0123456789abcdef'' ! n"

fun show_nat :: "nat \<Rightarrow> string" where
  "show_nat n = (if n < 10 then [digit_char n] else show_nat (n div 10) @ [digit_char (n mod 10)])"

definition show_int :: "int \<Rightarrow> string" where
  "show_int i = (if i < 0 then CHR ''-'' # show_nat (nat (- i)) else show_nat (nat i))"

text \<open>
  QuoteJSONString: \<open>CHR 0x22\<close> is the double quote and \<open>CHR 0x5C\<close> the backslash; control
  characters have a short escape or the form \<^verbatim>\<open>\u00XX\<close>.
\<close>

definition escape_char :: "char \<Rightarrow> string" where
  "escape_char c =
     (if c = CHR 0x22 then [CHR 0x5C, CHR 0x22]
      else if c = CHR 0x5C then [CHR 0x5C, CHR 0x5C]
      else if c = CHR 0x08 then [CHR 0x5C, CHR ''b'']
      else if c = CHR 0x0C then [CHR 0x5C, CHR ''f'']
      else if c = CHR 0x0A then [CHR 0x5C, CHR ''n'']
      else if c = CHR 0x0D then [CHR 0x5C, CHR ''r'']
      else if c = CHR 0x09 then [CHR 0x5C, CHR ''t'']
      else if (of_char c :: nat) < 0x20
        then [CHR 0x5C, CHR ''u'', CHR ''0'', CHR ''0'',
              digit_char (of_char c div 16), digit_char (of_char c mod 16)]
      else [c])"

definition quote :: "string \<Rightarrow> string" where
  "quote s = CHR 0x22 # concat (map escape_char s) @ [CHR 0x22]"

fun join :: "string \<Rightarrow> string list \<Rightarrow> string" where
  "join sep [] = []"
| "join sep [x] = x"
| "join sep (x # y # r) = x @ sep @ join sep (y # r)"

text \<open>
  \<^verbatim>\<open>JSON.stringify(v)\<close> without indentation: the members of an object are written in the
  order the object enumerates them; nothing sorts the keys.
\<close>

fun JSON_stringify :: "json \<Rightarrow> string" where
  "JSON_stringify JNull = ''null''"
| "JSON_stringify (JBool b) = (if b then ''true'' else ''false'')"
| "JSON_stringify (JNum n) = show_int n"
| "JSON_stringify (JStr s) = quote s"
| "JSON_stringify (JArr xs) = ''['' @ join '','' (map JSON_stringify xs) @ '']''"
| "JSON_stringify (JObj kvs) =
     ''{'' @ join '','' (map (\<lambda>(k, v). quote k @ '':'' @ JSON_stringify v) kvs) @ ''}''"




section \<open>SHA-256\<close>

text \<open>
  \<^verbatim>\<open>crypto.createHash('sha256')\<close> is the hash function of FIPS 180-4 on 32-bit words.
\<close>

type_synonym u32 = "32 word"
type_synonym byte = "8 word"
type_synonym hstate = "u32 \<times> u32 \<times> u32 \<times> u32 \<times> u32 \<times> u32 \<times> u32 \<times> u32"

definition rotr :: "nat \<Rightarrow> u32 \<Rightarrow> u32" where
  "rotr n x = (drop_bit n x) OR (push_bit (32 - n) x)"

text \<open>
  The round constants are the first 32 bits of the fractional parts of the cube roots of
  the first 64 primes, the initial hash value those of the square roots of the first 8
  primes; both are written in decimal.
\<close>

definition K256 :: "u32 list" where
  "K256 =
     [1116352408, 1899447441, 3049323471, 3921009573, 961987163, 1508970993,
      2453635748, 2870763221, 3624381080, 310598401, 607225278, 1426881987,
      1925078388, 2162078206, 2614888103, 3248222580, 3835390401, 4022224774,
      264347078, 604807628, 770255983, 1249150122, 1555081692, 1996064986,
      2554220882, 2821834349, 2952996808, 3210313671, 3336571891, 3584528711,
      113926993, 338241895, 666307205, 773529912, 1294757372, 1396182291,
      1695183700, 1986661051, 2177026350, 2456956037, 2730485921, 2820302411,
      3259730800, 3345764771, 3516065817, 3600352804, 4094571909, 275423344,
      430227734, 506948616, 659060556, 883997877, 958139571, 1322822218,
      1537002063, 1747873779, 1955562222, 2024104815, 2227730452, 2361852424,
      2428436474, 2756734187, 3204031479, 3329325298]"

definition H256 :: hstate where
  "H256 = (1779033703, 3144134277, 1013904242, 2773480762,
           1359893119, 2600822924, 528734635, 1541459225)"

definition ssig0 :: "u32 \<Rightarrow> u32" where
  "ssig0 x = rotr 7 x XOR rotr 18 x XOR drop_bit 3 x"

definition ssig1 :: "u32 \<Rightarrow> u32" where
  "ssig1 x = rotr 17 x XOR rotr 19 x XOR drop_bit 10 x"

definition bsig0 :: "u32 \<Rightarrow> u32" where
  "bsig0 x = rotr 2 x XOR rotr 13 x XOR rotr 22 x"

definition bsig1 :: "u32 \<Rightarrow> u32" where
  "bsig1 x = rotr 6 x XOR rotr 11 x XOR rotr 25 x"

definition ch :: "u32 \<Rightarrow> u32 \<Rightarrow> u32 \<Rightarrow> u32" where
  "ch x y z = (x AND y) XOR (NOT x AND z)"

definition maj :: "u32 \<Rightarrow> u32 \<Rightarrow> u32 \<Rightarrow> u32" where
  "maj x y z = (x AND y) XOR (x AND z) XOR (y AND z)"

text \<open>The message schedule: each further word from the words 2, 7, 15 and 16 places back.\<close>

primrec schedule :: "nat \<Rightarrow> u32 list \<Rightarrow> u32 list" where
  "schedule 0 ws = ws"
| "schedule (Suc n) ws =
     (let i = length ws
      in schedule n
           (ws @ [ssig1 (ws ! (i - 2)) + ws ! (i - 7) + ssig0 (ws ! (i - 15)) + ws ! (i - 16)]))"

definition round :: "u32 \<times> u32 \<Rightarrow> hstate \<Rightarrow> hstate" where
  "round kw st =
     (case kw of (k, w) \<Rightarrow> case st of (a, b, c, d, e, f, g, h) \<Rightarrow>
        (let t1 = h + bsig1 e + ch e f g + k + w;
             t2 = bsig0 a + maj a b c
         in (t1 + t2, a, b, c, d + t1, e, f, g)))"

definition add_state :: "hstate \<Rightarrow> hstate \<Rightarrow> hstate" where
  "add_state s t =
     (case s of (a, b, c, d, e, f, g, h) \<Rightarrow> case t of (a', b', c', d', e', f', g', h') \<Rightarrow>
        (a + a', b + b', c + c', d + d', e + e', f + f', g + g', h + h'))"

fun be32 :: "byte list \<Rightarrow> u32 list" where
  "be32 (b0 # b1 # b2 # b3 # r) =
     (push_bit 24 (ucast b0) OR push_bit 16 (ucast b1) OR push_bit 8 (ucast b2) OR ucast b3) # be32 r"
| "be32 r = []"

definition compress :: "hstate \<Rightarrow> byte list \<Rightarrow> hstate" where
  "compress hs blk = add_state hs (fold round (zip K256 (schedule 48 (be32 blk))) hs)"

definition len_bytes :: "nat \<Rightarrow> byte list" where
  "len_bytes n =
     (let w = (of_nat n :: 64 word)
      in [ucast (drop_bit 56 w), ucast (drop_bit 48 w), ucast (drop_bit 40 w), ucast (drop_bit 32 w),
          ucast (drop_bit 24 w), ucast (drop_bit 16 w), ucast (drop_bit 8 w), ucast w])"

definition pad :: "byte list \<Rightarrow> byte list" where
  "pad m = m @ [0x80] @ replicate ((119 - length m mod 64) mod 64) 0 @ len_bytes (8 * length m)"

fun blocks :: "nat \<Rightarrow> hstate \<Rightarrow> byte list \<Rightarrow> hstate" where
  "blocks 0 hs m = hs"
| "blocks (Suc n) hs m = blocks n (compress hs (take 64 m)) (drop 64 m)"

definition word_bytes :: "u32 \<Rightarrow> byte list" where
  "word_bytes w = [ucast (drop_bit 24 w), ucast (drop_bit 16 w), ucast (drop_bit 8 w), ucast w]"

definition sha256 :: "byte list \<Rightarrow> byte list" where
  "sha256 m =
     (let p = pad m
      in case blocks (length p div 64) H256 p of (a, b, c, d, e, f, g, h) \<Rightarrow>
           concat (map word_bytes [a, b, c, d, e, f, g, h]))"

text \<open>\<^verbatim>\<open>update(str)\<close> hashes the bytes of the string; \<^verbatim>\<open>digest('hex')\<close> prints lower-case hex.\<close>

definition bytes_of :: "string \<Rightarrow> byte list" where
  "bytes_of s = map of_char s"

definition hex :: "byte list \<Rightarrow> string" where
  "hex bs = concat (map (\<lambda>b. [digit_char (unat b div 16), digit_char (unat b mod 16)]) bs)"

text \<open>
  The digest of a payload or result body, as both files compute it:
  \<^verbatim>\<open>crypto.createHash('sha256').update(JSON.stringify(payload)).digest()\<close>.
\<close>

definition payloadDigest :: "json \<Rightarrow> byte list" where
  "payloadDigest payload = sha256 (bytes_of (JSON_stringify payload))"

definition payloadDigest_hex :: "json \<Rightarrow> string" where
  "payloadDigest_hex payload = hex (payloadDigest payload)"

section \<open>The REST server (index.ts)\<close>

text \<open>
  The three module-level maps \<^verbatim>\<open>agents\<close>, \<^verbatim>\<open>modelProfiles\<close> and \<^verbatim>\<open>intents\<close>, keyed
  by record id. A stored field of type \<^verbatim>\<open>any\<close> is a \<open>jsv\<close>; \<^verbatim>\<open>null\<close> in a field the
  server computes itself (\<^verbatim>\<open>resultHash\<close>, \<^verbatim>\<open>resultUri\<close>) and an absent \<^verbatim>\<open>updatedAt\<close>
  are \<open>None\<close>.
\<close>

record agent =
  agent_id :: string
  agent_ownerWallet :: jsv
  agent_agentWallet :: jsv
  agent_modelProfile :: jsv
  agent_metadataUri :: jsv
  agent_permissions :: jsv
  agent_createdAt :: string
  agent_updatedAt :: "string option"

record profile =
  profile_id :: string
  profile_ownerWallet :: jsv
  profile_label :: jsv
  profile_providerUri :: jsv
  profile_pricing :: jsv
  profile_billingWallet :: jsv
  profile_maxTokensPerDay :: jsv
  profile_maxRequestsPerMin :: jsv
  profile_createdAt :: string
  profile_updatedAt :: "string option"

record intent =
  intent_id :: string
  intent_fromAgent :: jsv
  intent_toAgent :: jsv
  intent_nonce :: int
  intent_status :: jsv
  intent_payloadHash :: string
  intent_payloadUri :: string
  intent_payload :: jsv
  intent_paymentAmount :: jsv
  intent_paymentMint :: jsv
  intent_resultHash :: "string option"
  intent_resultUri :: "string option"
  intent_result :: jsv
  intent_createdAt :: string
  intent_updatedAt :: "string option"

record server =
  agents :: "string \<rightharpoonup> agent"
  modelProfiles :: "string \<rightharpoonup> profile"
  intents :: "string \<rightharpoonup> intent"

definition empty_server :: server where
  "empty_server = \<lparr>agents = Map.empty, modelProfiles = Map.empty, intents = Map.empty\<rparr>"

text \<open>
  What one request reads from outside: \<^verbatim>\<open>crypto.randomUUID()\<close>, \<^verbatim>\<open>Date.now()\<close> and
  \<^verbatim>\<open>new Date().toISOString()\<close>.
\<close>

record env =
  randomUUID :: string
  Date_now :: int
  toISOString :: string

text \<open>The response: HTTP status and the JSON object sent.\<close>

datatype reply =
    ErrorReply nat string
  | AgentReply nat agent
  | ProfileReply nat profile
  | IntentReply nat intent

fun status_code :: "reply \<Rightarrow> nat" where
  "status_code (ErrorReply c m) = c"
| "status_code (AgentReply c a) = c"
| "status_code (ProfileReply c p) = c"
| "status_code (IntentReply c i) = c"

text \<open>\<^verbatim>\<open>POST /api/agents\<close>\<close>

definition post_agents :: "env \<Rightarrow> json \<Rightarrow> server \<Rightarrow> server \<times> reply" where
  "post_agents e body st =
     (let ownerWallet = field body ''ownerWallet'';
          agentWallet = field body ''agentWallet'';
          modelProfile = field body ''modelProfile'';
          metadataUri = field body ''metadataUri'';
          permissions = field body ''permissions''
      in if js_not ownerWallet \<or> js_not agentWallet
         then (st, ErrorReply 400 ''ownerWallet and agentWallet required'')
         else
           let agentId = randomUUID e;
               agent = \<lparr>agent_id = agentId,
                        agent_ownerWallet = ownerWallet,
                        agent_agentWallet = agentWallet,
                        agent_modelProfile = js_or modelProfile (Some JNull),
                        agent_metadataUri = js_or metadataUri (Some (JStr [])),
                        agent_permissions = js_or permissions (Some (JNum 0)),
                        agent_createdAt = toISOString e,
                        agent_updatedAt = None\<rparr>
           in (st\<lparr>agents := (agents st)(agentId \<mapsto> agent)\<rparr>, AgentReply 201 agent))"

text \<open>\<^verbatim>\<open>POST /api/model-profiles\<close>\<close>

definition post_model_profiles :: "env \<Rightarrow> json \<Rightarrow> server \<Rightarrow> server \<times> reply" where
  "post_model_profiles e body st =
     (let ownerWallet = field body ''ownerWallet'';
          label = field body ''label'';
          providerUri = field body ''providerUri'';
          pricing = field body ''pricing'';
          billingWallet = field body ''billingWallet'';
          maxTokensPerDay = field body ''maxTokensPerDay'';
          maxRequestsPerMin = field body ''maxRequestsPerMin''
      in if js_not ownerWallet \<or> js_not label \<or> js_not providerUri
         then (st, ErrorReply 400 ''ownerWallet, label, and providerUri required'')
         else
           let profileId = randomUUID e;
               profile = \<lparr>profile_id = profileId,
                          profile_ownerWallet = ownerWallet,
                          profile_label = label,
                          profile_providerUri = providerUri,
                          profile_pricing = js_or pricing (Some (JNum 0)),
                          profile_billingWallet = js_or billingWallet ownerWallet,
                          profile_maxTokensPerDay = js_or maxTokensPerDay (Some (JNum 1000000)),
                          profile_maxRequestsPerMin = js_or maxRequestsPerMin (Some (JNum 60)),
                          profile_createdAt = toISOString e,
                          profile_updatedAt = None\<rparr>
           in (st\<lparr>modelProfiles := (modelProfiles st)(profileId \<mapsto> profile)\<rparr>,
               ProfileReply 201 profile))"

text \<open>
  \<^verbatim>\<open>PUT /api/model-profiles/:id\<close>: the stored object is updated field by field, in the
  order of the source.
\<close>

definition put_model_profile :: "env \<Rightarrow> string \<Rightarrow> json \<Rightarrow> server \<Rightarrow> server \<times> reply" where
  "put_model_profile e pid body st =
     (case modelProfiles st pid of
        None \<Rightarrow> (st, ErrorReply 404 ''Model profile not found'')
      | Some profile \<Rightarrow>
          let label = field body ''label'';
              providerUri = field body ''providerUri'';
              pricing = field body ''pricing'';
              billingWallet = field body ''billingWallet'';
              maxTokensPerDay = field body ''maxTokensPerDay'';
              maxRequestsPerMin = field body ''maxRequestsPerMin'';
              p1 = (if truthy label then profile\<lparr>profile_label := label\<rparr> else profile);
              p2 = (if truthy providerUri then p1\<lparr>profile_providerUri := providerUri\<rparr> else p1);
              p3 = (if pricing \<noteq> None then p2\<lparr>profile_pricing := pricing\<rparr> else p2);
              p4 = (if truthy billingWallet then p3\<lparr>profile_billingWallet := billingWallet\<rparr> else p3);
              p5 = (if truthy maxTokensPerDay
                    then p4\<lparr>profile_maxTokensPerDay := maxTokensPerDay\<rparr> else p4);
              p6 = (if truthy maxRequestsPerMin
                    then p5\<lparr>profile_maxRequestsPerMin := maxRequestsPerMin\<rparr> else p5);
              p7 = p6\<lparr>profile_updatedAt := Some (toISOString e)\<rparr>
          in (st\<lparr>modelProfiles := (modelProfiles st)(pid \<mapsto> p7)\<rparr>, ProfileReply 200 p7))"

text \<open>
  \<^verbatim>\<open>POST /api/intents\<close>. The payload is defined where it is stringified, since the
  handler has returned on a falsy payload before.
\<close>

definition USDC_MINT :: string where
  "USDC_MINT = ''EPjFWdd5AufqSSqeM2qN1xzybapC8G4wEGGkZwyTDt1v''"

definition post_intents :: "env \<Rightarrow> json \<Rightarrow> server \<Rightarrow> server \<times> reply" where
  "post_intents e body st =
     (let fromAgent = field body ''fromAgent'';
          toAgent = field body ''toAgent'';
          payload = field body ''payload'';
          paymentAmount = field body ''paymentAmount'';
          paymentMint = field body ''paymentMint''
      in if js_not fromAgent \<or> js_not toAgent \<or> js_not payload
         then (st, ErrorReply 400 ''fromAgent, toAgent, and payload required'')
         else
           (case payload of
              None \<Rightarrow> (st, ErrorReply 400 ''fromAgent, toAgent, and payload required'')
            | Some body_of_payload \<Rightarrow>
                let intentId = randomUUID e;
                    payloadHash = payloadDigest_hex body_of_payload;
                    payloadUri = ''https://mesh.example.com/payloads/'' @ intentId;
                    intent = \<lparr>intent_id = intentId,
                              intent_fromAgent = fromAgent,
                              intent_toAgent = toAgent,
                              intent_nonce = Date_now e,
                              intent_status = Some (JStr ''pending''),
                              intent_payloadHash = payloadHash,
                              intent_payloadUri = payloadUri,
                              intent_payload = payload,
                              intent_paymentAmount = js_or paymentAmount (Some (JNum 0)),
                              intent_paymentMint = js_or paymentMint (Some (JStr USDC_MINT)),
                              intent_resultHash = None,
                              intent_resultUri = None,
                              intent_result = Some JNull,
                              intent_createdAt = toISOString e,
                              intent_updatedAt = None\<rparr>
                in (st\<lparr>intents := (intents st)(intentId \<mapsto> intent)\<rparr>, IntentReply 201 intent)))"

text \<open>
  \<^verbatim>\<open>PUT /api/intents/:id/status\<close>: the new status is written first, then the result
  fields when the request carries a truthy result.
\<close>

definition put_intent_status :: "env \<Rightarrow> string \<Rightarrow> json \<Rightarrow> server \<Rightarrow> server \<times> reply" where
  "put_intent_status e iid body st =
     (case intents st iid of
        None \<Rightarrow> (st, ErrorReply 404 ''Intent not found'')
      | Some intent \<Rightarrow>
          let status = field body ''status'';
              result = field body ''result''
          in if js_not status
             then (st, ErrorReply 400 ''status required'')
             else
               let i1 = intent\<lparr>intent_status := status\<rparr>;
                   i2 = (case result of
                           None \<Rightarrow> i1
                         | Some r \<Rightarrow>
                             if truthy result
                             then i1\<lparr>intent_result := result,
                                     intent_resultHash := Some (payloadDigest_hex r),
                                     intent_resultUri :=
                                       Some (''https://mesh.example.com/results/'' @ intent_id i1)\<rparr>
                             else i1);
                   i3 = i2\<lparr>intent_updatedAt := Some (toISOString e)\<rparr>
               in (st\<lparr>intents := (intents st)(iid \<mapsto> i3)\<rparr>, IntentReply 200 i3))"

section \<open>The mesh controller (mesh-controller.ts)\<close>

text \<open>
  The permission flags \<^verbatim>\<open>1 << 0\<close> ... \<^verbatim>\<open>1 << 4\<close>, and the operator \<^verbatim>\<open>&\<close> of
  JavaScript, which converts both numbers to signed 32-bit integers first.
\<close>

definition CAN_SWAP :: int where "CAN_SWAP = push_bit 0 1"
definition CAN_TRANSFER :: int where "CAN_TRANSFER = push_bit 1 1"
definition CAN_VOTE :: int where "CAN_VOTE = push_bit 2 1"
definition CAN_CREATE_INTENT :: int where "CAN_CREATE_INTENT = push_bit 3 1"
definition CAN_ACCEPT_INTENT :: int where "CAN_ACCEPT_INTENT = push_bit 4 1"

definition js_band :: "int \<Rightarrow> int \<Rightarrow> int" where
  "js_band a b = sint ((word_of_int a :: 32 word) AND word_of_int b)"

datatype IntentStatus = Pending | Accepted | Completed | Failed

text \<open>A \<^verbatim>\<open>PublicKey\<close> is given by its base58 text, or by its bytes where it is a seed.\<close>

record AgentConfig =
  cfg_ownerWallet :: string
  cfg_agentWallet :: string
  cfg_modelProfile :: string
  cfg_metadataUri :: string
  cfg_permissions :: int

record IntentData =
  data_fromAgent :: string
  data_toAgent :: string
  data_nonce :: int
  data_status :: IntentStatus
  data_payloadHash :: "byte list"
  data_payloadUri :: string
  data_paymentAmount :: int
  data_paymentMint :: string
  data_resultHash :: "byte list"
  data_resultUri :: string

text \<open>An LLM backend: \<^verbatim>\<open>call\<close> resolves to a text or rejects.\<close>

record LLMProvider =
  provider_name :: string
  provider_call :: "json \<Rightarrow> error + string"

record MeshController =
  llmProviders :: "string \<rightharpoonup> LLMProvider"

text \<open>What a method does to the outside, in the order it does it.\<close>

datatype effect =
    ConsoleLog string "jsv list"
  | HttpGet string
  | LlmCall string json

fun is_LlmCall :: "effect \<Rightarrow> bool" where
  "is_LlmCall (LlmCall n p) = True"
| "is_LlmCall x = False"

subsection \<open>getIntentPDA\<close>

text \<open>\<open>le_bytes k v\<close>: the \<open>k\<close> low bytes of \<open>v\<close>, lowest first.\<close>

primrec le_bytes :: "nat \<Rightarrow> int \<Rightarrow> byte list" where
  "le_bytes 0 v = []"
| "le_bytes (Suc k) v = word_of_int (v mod 256) # le_bytes k (v div 256)"

text \<open>
  \<^verbatim>\<open>Buffer.alloc(8)\<close> and \<^verbatim>\<open>writeBigUInt64LE(BigInt(nonce))\<close>, which throws a RangeError
  outside \<open>0 .. 2^64 - 1\<close>.
\<close>

definition writeBigUInt64LE :: "int \<Rightarrow> error + byte list" where
  "writeBigUInt64LE v =
     (if v < 0 \<or> 2 ^ 64 \<le> v
      then Inl (RangeError ''The value of value is out of range.'')
      else Inr (le_bytes 8 v))"

text \<open>The seeds handed to \<^verbatim>\<open>PublicKey.findProgramAddressSync\<close>.\<close>

definition intent_seeds :: "byte list \<Rightarrow> byte list \<Rightarrow> int \<Rightarrow> error + byte list list" where
  "intent_seeds fromAgent toAgent nonce =
     (case writeBigUInt64LE nonce of
        Inl err \<Rightarrow> Inl err
      | Inr nonceBuffer \<Rightarrow> Inr [bytes_of ''intent'', fromAgent, toAgent, nonceBuffer])"

text \<open>
  \<open>findProgramAddressSync\<close> stands for the library function at the program id of the
  source.
\<close>

definition getIntentPDA ::
  "(byte list list \<Rightarrow> 'pda) \<Rightarrow> byte list \<Rightarrow> byte list \<Rightarrow> int \<Rightarrow> error + 'pda" where
  "getIntentPDA findProgramAddressSync fromAgent toAgent nonce =
     (case intent_seeds fromAgent toAgent nonce of
        Inl err \<Rightarrow> Inl err
      | Inr seeds \<Rightarrow> Inr (findProgramAddressSync seeds))"

text \<open>Reading bytes back as a number, lowest byte first.\<close>

primrec le_value :: "byte list \<Rightarrow> int" where
  "le_value [] = 0"
| "le_value (b # bs) = uint b + 256 * le_value bs"

subsection \<open>processIntent\<close>

text \<open>\<^verbatim>\<open>a || b\<close> with a defined right operand.\<close>

definition js_or_val :: "jsv \<Rightarrow> json \<Rightarrow> json" where
  "js_or_val a b = (case a of None \<Rightarrow> b | Some v \<Rightarrow> if truthy a then v else b)"

record outcome =
  intent_after :: IntentData
  effects :: "effect list"
  returned :: "error + (byte list \<times> string)"

text \<open>
  \<open>axios_get\<close> is the answer of the payload store: the parsed body, or the rejection.
  \<open>now\<close> is \<^verbatim>\<open>Date.now()\<close>. The method assigns to no field of \<open>intent\<close>.
\<close>

definition processIntent ::
  "MeshController \<Rightarrow> (string \<Rightarrow> error + json) \<Rightarrow> int \<Rightarrow> IntentData \<Rightarrow> AgentConfig \<Rightarrow> outcome" where
  "processIntent this axios_get now intent agentConfig =
     (let fetched = [HttpGet (data_payloadUri intent)]
      in (case axios_get (data_payloadUri intent) of
            Inl err \<Rightarrow> \<lparr>intent_after = intent, effects = fetched, returned = Inl err\<rparr>
          | Inr payload \<Rightarrow>
              (let computedHash = payloadDigest payload
               in if computedHash \<noteq> data_payloadHash intent
                  then \<lparr>intent_after = intent, effects = fetched,
                        returned = Inl (Error ''Payload hash mismatch'')\<rparr>
                  else
                    (case llmProviders this (cfg_modelProfile agentConfig) of
                       None \<Rightarrow>
                         \<lparr>intent_after = intent, effects = fetched,
                          returned = Inl (Error ''No LLM provider configured for model profile'')\<rparr>
                     | Some llmProvider \<Rightarrow>
                         (let logged = fetched @
                                [ConsoleLog (''[Mesh] Processing intent with LLM provider '' @
                                             provider_name llmProvider) []]
                          in (case member (Some payload) ''prompt'' of
                                Inl err \<Rightarrow>
                                  \<lparr>intent_after = intent, effects = logged, returned = Inl err\<rparr>
                              | Inr p \<Rightarrow>
                                  (let prompt = js_or_val p (JStr (JSON_stringify payload));
                                       called = logged @
                                                [LlmCall (provider_name llmProvider) prompt]
                                   in (case provider_call llmProvider prompt of
                                         Inl err \<Rightarrow>
                                           \<lparr>intent_after = intent, effects = called,
                                            returned = Inl err\<rparr>
                                       | Inr result \<Rightarrow>
                                           (let resultData = JObj [(''input'', payload),
                                                                   (''output'', JStr result),
                                                                   (''timestamp'', JNum now)];
                                                resultHash = payloadDigest resultData;
                                                resultUri = ''https://mesh.example.com/results/'' @
                                                            hex resultHash
                                            in \<lparr>intent_after = intent, effects = called,
                                                returned = Inr (resultHash, resultUri)\<rparr>)))))))))"

subsection \<open>executeAction\<close>

text \<open>The property reads of one template string, left to right.\<close>

fun members :: "jsv \<Rightarrow> string list \<Rightarrow> error + jsv list" where
  "members v [] = Inr []"
| "members v (k # ks) =
     (case member v k of
        Inl err \<Rightarrow> Inl err
      | Inr x \<Rightarrow> (case members v ks of Inl err \<Rightarrow> Inl err | Inr xs \<Rightarrow> Inr (x # xs)))"

definition executeAction :: "AgentConfig \<Rightarrow> string \<Rightarrow> jsv \<Rightarrow> effect list \<times> (error + string)" where
  "executeAction agentConfig action params =
     (let entered = [ConsoleLog (''[Mesh] Executing action '' @ action @ '' for agent '' @
                                 cfg_agentWallet agentConfig) []]
      in if action = ''swap'' \<and> js_band (cfg_permissions agentConfig) CAN_SWAP = 0
         then (entered, Inl (Error ''Agent does not have CAN_SWAP permission''))
         else if action = ''transfer'' \<and> js_band (cfg_permissions agentConfig) CAN_TRANSFER = 0
         then (entered, Inl (Error ''Agent does not have CAN_TRANSFER permission''))
         else if action = ''swap''
         then (case members params [''inputMint'', ''outputMint'', ''amount''] of
                 Inl err \<Rightarrow> (entered, Inl err)
               | Inr vs \<Rightarrow> (entered @ [ConsoleLog ''[Mesh] Would execute swap'' vs],
                             Inr ''simulated-swap-tx-signature''))
         else if action = ''transfer''
         then (case members params [''amount'', ''destination''] of
                 Inl err \<Rightarrow> (entered, Inl err)
               | Inr vs \<Rightarrow> (entered @ [ConsoleLog ''[Mesh] Would execute transfer'' vs],
                             Inr ''simulated-transfer-tx-signature''))
         else (entered, Inl (Error (''Unknown action: '' @ action))))"

section \<open>What the specification asks for\<close>

text \<open>
  The transitions the specification allows, on the status texts of the server:
  Pending to Accepted or Failed, Accepted to Completed or Failed.
\<close>

definition spec_legal_transition :: "string \<Rightarrow> string \<Rightarrow> bool" where
  "spec_legal_transition s t =
     ((s = ''pending'' \<and> t = ''accepted'') \<or> (s = ''pending'' \<and> t = ''failed'') \<or>
      (s = ''accepted'' \<and> t = ''completed'') \<or> (s = ''accepted'' \<and> t = ''failed''))"

text \<open>The specification's invariant: a result digest exactly on a Completed intent.\<close>

definition spec_result_invariant :: "intent \<Rightarrow> bool" where
  "spec_result_invariant i =
     ((intent_resultHash i \<noteq> None) = (intent_status i = Some (JStr ''completed'')))"

text \<open>The specification's nonce seed: 8 bytes, highest byte first.\<close>

primrec be_bytes :: "nat \<Rightarrow> int \<Rightarrow> byte list" where
  "be_bytes 0 v = []"
| "be_bytes (Suc k) v = be_bytes k (v div 256) @ [word_of_int (v mod 256)]"


section \<open>Concrete requests and runs\<close>

text \<open>Two clock readings and three fresh identifiers.\<close>

definition env_a :: env where
  "env_a = \<lparr>randomUUID = ''id-1'', Date_now = 1700000000000,
            toISOString = ''2023-11-14T22:13:20.000Z''\<rparr>"

definition env_b :: env where
  "env_b = \<lparr>randomUUID = ''id-2'', Date_now = 1700000000000,
            toISOString = ''2023-11-14T22:13:20.000Z''\<rparr>"

definition env_c :: env where
  "env_c = \<lparr>randomUUID = ''id-3'', Date_now = 1700000000500,
            toISOString = ''2023-11-14T22:13:20.500Z''\<rparr>"

text \<open>The swap payload of the specification's scenario, and the same members in the other order.\<close>

definition swap_payload :: json where
  "swap_payload = JObj [(''action'', JStr ''swap''), (''amount'', JNum 1000000000)]"

definition swap_payload_reordered :: json where
  "swap_payload_reordered = JObj [(''amount'', JNum 1000000000), (''action'', JStr ''swap'')]"

definition swap_digest :: "byte list" where
  "swap_digest =
     [250, 181, 69, 20, 145, 166, 26, 195, 157, 166, 31, 112, 249, 140, 132, 104,
      97, 226, 142, 189, 182, 152, 102, 211, 159, 30, 106, 36, 32, 113, 81, 151]"

definition swap_reordered_digest :: "byte list" where
  "swap_reordered_digest =
     [137, 64, 116, 254, 224, 114, 117, 92, 190, 192, 178, 147, 163, 207, 12, 88,
      128, 213, 175, 22, 122, 142, 111, 26, 137, 49, 203, 255, 199, 180, 33, 135]"

text \<open>Requests to the server.\<close>

definition intent_request :: json where
  "intent_request =
     JObj [(''fromAgent'', JStr ''research-agent-1''), (''toAgent'', JStr ''execution-agent-1''),
           (''payload'', swap_payload), (''paymentAmount'', JNum 1000)]"

definition self_intent_request :: json where
  "self_intent_request =
     JObj [(''fromAgent'', JStr ''agent-x''), (''toAgent'', JStr ''agent-x''),
           (''payload'', JObj []), (''paymentAmount'', JNum (- 1))]"

definition empty_payload_request :: json where
  "empty_payload_request =
     JObj [(''fromAgent'', JStr ''research-agent-1''), (''toAgent'', JStr ''execution-agent-1''),
           (''payload'', JStr [])]"

definition status_request :: "string \<Rightarrow> json" where
  "status_request s = JObj [(''status'', JStr s)]"

definition failed_with_result_request :: json where
  "failed_with_result_request =
     JObj [(''status'', JStr ''failed''), (''result'', JObj [(''error'', JStr ''timeout'')])]"

definition profile_request :: json where
  "profile_request =
     JObj [(''ownerWallet'', JStr ''Demo1''), (''label'', JStr ''cheap-llm''),
           (''providerUri'', JStr ''https://mesh-gateway.example.com/cheap''),
           (''pricing'', JNum 100), (''maxTokensPerDay'', JNum 10000000),
           (''maxRequestsPerMin'', JNum 100)]"

definition zero_update_request :: json where
  "zero_update_request =
     JObj [(''label'', JStr []), (''providerUri'', JStr []), (''pricing'', JNum 0),
           (''maxTokensPerDay'', JNum 0), (''maxRequestsPerMin'', JNum 0)]"

definition agent_request :: json where
  "agent_request = JObj [(''ownerWallet'', JStr ''Demo1''), (''agentWallet'', JStr ''Research1'')]"

definition agent_request_with_profile :: json where
  "agent_request_with_profile =
     JObj [(''ownerWallet'', JStr ''Demo1''), (''agentWallet'', JStr ''Research1''),
           (''modelProfile'', JStr ''cheap-llm-profile''),
           (''metadataUri'', JStr ''https://mesh.example.com/agents/research.json'')]"

definition agent_request_no_wallet :: json where
  "agent_request_no_wallet = JObj [(''ownerWallet'', JStr ''Demo1'')]"

text \<open>Runs of the server from the empty store.\<close>

definition run_created :: server where
  "run_created = fst (post_intents env_a intent_request empty_server)"

definition run_accepted :: server where
  "run_accepted = fst (put_intent_status env_c ''id-1'' (status_request ''accepted'') run_created)"

definition run_completed :: server where
  "run_completed = fst (put_intent_status env_c ''id-1'' (status_request ''completed'') run_accepted)"

definition run_failed :: server where
  "run_failed = fst (put_intent_status env_c ''id-1'' failed_with_result_request run_accepted)"

definition run_created_twice :: server where
  "run_created_twice = fst (post_intents env_b intent_request run_created)"

definition run_profile :: server where
  "run_profile = fst (post_model_profiles env_a profile_request empty_server)"

text \<open>
  An accepted intent whose stored digest is that of \<open>swap_payload\<close>, a payload store that
  now answers with the reordered body, and a controller with one backend.
\<close>

definition accepted_intent :: IntentData where
  "accepted_intent =
     \<lparr>data_fromAgent = ''AgentA'', data_toAgent = ''AgentB'', data_nonce = 7,
      data_status = Accepted, data_payloadHash = swap_digest,
      data_payloadUri = ''https://mesh.example.com/payloads/p1'', data_paymentAmount = 1000,
      data_paymentMint = USDC_MINT, data_resultHash = [], data_resultUri = []\<rparr>"

definition altered_store :: "string \<Rightarrow> error + json" where
  "altered_store uri = Inr swap_payload_reordered"

definition intact_store :: "string \<Rightarrow> error + json" where
  "intact_store uri = Inr swap_payload"

definition mock_llm :: LLMProvider where
  "mock_llm = \<lparr>provider_name = ''mock-llm'', provider_call = (\<lambda>prompt. Inr ''ok'')\<rparr>"

definition mesh :: MeshController where
  "mesh = \<lparr>llmProviders = [''Profile1'' \<mapsto> mock_llm]\<rparr>"

definition agent_b :: AgentConfig where
  "agent_b =
     \<lparr>cfg_ownerWallet = ''Owner1'', cfg_agentWallet = ''AgentB'', cfg_modelProfile = ''Profile1'',
      cfg_metadataUri = ''https://example.com/agent.json'',
      cfg_permissions = 24\<rparr>"

definition agent_swapper :: AgentConfig where
  "agent_swapper = agent_b\<lparr>cfg_permissions := 9\<rparr>"

lemmas run_defs =
  env_a_def env_b_def env_c_def swap_payload_def swap_payload_reordered_def
  intent_request_def self_intent_request_def empty_payload_request_def status_request_def
  failed_with_result_request_def
  profile_request_def zero_update_request_def agent_request_def agent_request_with_profile_def
  agent_request_no_wallet_def run_created_def run_accepted_def run_completed_def run_failed_def
  run_created_twice_def run_profile_def empty_server_def

lemmas handler_defs =
  post_agents_def post_model_profiles_def put_model_profile_def post_intents_def
  put_intent_status_def js_not_def js_or_def Let_def

section \<open>Properties of the hash and of the serialization\<close>


text \<open>The test vector of FIPS 180-4 for the message \<^verbatim>\<open>abc\<close>.\<close>

lemma sha256_abc:
  "hex (sha256 (bytes_of ''abc'')) =
     ''ba7816bf8f01cfea414140de5dae2223b00361a396177a9cb410ff61f20015ad''"
  by code_simp

lemma stringify_swap_payload:
  \<open>JSON_stringify swap_payload = ''{"action":"swap","amount":1000000000}''\<close>
  by (simp add: swap_payload_def quote_def escape_char_def show_int_def digit_char_def)

lemma stringify_swap_payload_reordered:
  \<open>JSON_stringify swap_payload_reordered = ''{"amount":1000000000,"action":"swap"}''\<close>
  by (simp add: swap_payload_reordered_def quote_def escape_char_def show_int_def digit_char_def)

lemma sha256_swap_text:
  \<open>sha256 (bytes_of ''{"action":"swap","amount":1000000000}'') =
     [250, 181, 69, 20, 145, 166, 26, 195, 157, 166, 31, 112, 249, 140, 132, 104,
      97, 226, 142, 189, 182, 152, 102, 211, 159, 30, 106, 36, 32, 113, 81, 151]\<close>
  by code_simp

lemma sha256_swap_reordered_text:
  \<open>sha256 (bytes_of ''{"amount":1000000000,"action":"swap"}'') =
     [137, 64, 116, 254, 224, 114, 117, 92, 190, 192, 178, 147, 163, 207, 12, 88,
      128, 213, 175, 22, 122, 142, 111, 26, 137, 49, 203, 255, 199, 180, 33, 135]\<close>
  by code_simp

lemma digest_swap_payload: "payloadDigest swap_payload = swap_digest"
  unfolding payloadDigest_def stringify_swap_payload swap_digest_def
  by (rule sha256_swap_text)

lemma digest_swap_payload_reordered: "payloadDigest swap_payload_reordered = swap_reordered_digest"
  unfolding payloadDigest_def stringify_swap_payload_reordered swap_reordered_digest_def
  by (rule sha256_swap_reordered_text)

lemma digests_differ: "swap_reordered_digest \<noteq> swap_digest"
  by (simp add: swap_digest_def swap_reordered_digest_def)

section \<open>The integrity check of processIntent\<close>

lemma processIntent_keeps_intent:
  "intent_after (processIntent this axios_get now intent agentConfig) = intent"
  by (simp add: processIntent_def Let_def split: sum.splits option.splits)

text \<open>With the intact payload the same run reaches the backend, once.\<close>

lemma processIntent_intact_calls_backend:
  "effects (processIntent mesh intact_store 1700000000000 accepted_intent agent_b) =
     [HttpGet ''https://mesh.example.com/payloads/p1'',
      ConsoleLog ''[Mesh] Processing intent with LLM provider mock-llm'' [],
      LlmCall ''mock-llm'' (JStr (JSON_stringify swap_payload))]"
proof -
  have m: "member (Some swap_payload) ''prompt'' = Inr None"
    by (simp add: swap_payload_def)
  show ?thesis
    by (simp add: processIntent_def mesh_def intact_store_def accepted_intent_def agent_b_def
        mock_llm_def digest_swap_payload m js_or_val_def Let_def)
qed

text \<open>
  C1. When the payload store answers with a body whose recomputed digest is not the
  stored \<open>payloadHash\<close>, processIntent throws \<open>Payload hash mismatch\<close> (the
  specification's IntegrityViolation). Up to then it has only fetched the payload: no
  backend was called, and the intent is as it was, so an Accepted intent stays Accepted.
\<close>

theorem processIntent_hash_mismatch_aborts:
  assumes "axios_get (data_payloadUri intent) = Inr payload"
    and "payloadDigest payload \<noteq> data_payloadHash intent"
  shows "returned (processIntent this axios_get now intent agentConfig) =
           Inl (Error ''Payload hash mismatch'') \<and>
         effects (processIntent this axios_get now intent agentConfig) =
           [HttpGet (data_payloadUri intent)] \<and>
         \<not> list_ex is_LlmCall (effects (processIntent this axios_get now intent agentConfig)) \<and>
         intent_after (processIntent this axios_get now intent agentConfig) = intent \<and>
         (data_status intent = Accepted \<longrightarrow>
            data_status (intent_after (processIntent this axios_get now intent agentConfig)) =
              Accepted)"
  using assms by (simp add: processIntent_def)

text \<open>
  C1, at the accepted intent whose payload body was replaced by the reordered one: the
  digests differ, the call fails and the status is still Accepted.
\<close>

theorem processIntent_hash_mismatch_aborts_witness:
  "altered_store (data_payloadUri accepted_intent) = Inr swap_payload_reordered \<and>
   payloadDigest swap_payload_reordered \<noteq> data_payloadHash accepted_intent \<and>
   data_status accepted_intent = Accepted \<and>
   returned (processIntent mesh altered_store 1700000000000 accepted_intent agent_b) =
     Inl (Error ''Payload hash mismatch'') \<and>
   effects (processIntent mesh altered_store 1700000000000 accepted_intent agent_b) =
     [HttpGet ''https://mesh.example.com/payloads/p1''] \<and>
   data_status (intent_after (processIntent mesh altered_store 1700000000000 accepted_intent
     agent_b)) = Accepted"
proof -
  have a: "altered_store (data_payloadUri accepted_intent) = Inr swap_payload_reordered"
    by (simp add: altered_store_def)
  have b: "payloadDigest swap_payload_reordered \<noteq> data_payloadHash accepted_intent"
    by (simp add: digest_swap_payload_reordered accepted_intent_def digests_differ)
  have c: "data_status accepted_intent = Accepted"
    and d: "data_payloadUri accepted_intent = ''https://mesh.example.com/payloads/p1''"
    by (simp_all add: accepted_intent_def)
  show ?thesis
    using processIntent_hash_mismatch_aborts
      [where axios_get = altered_store and intent = accepted_intent
         and payload = swap_payload_reordered and this = mesh and now = 1700000000000
         and agentConfig = agent_b, OF a b] a b c d
    by simp
qed

section \<open>The permission gate of executeAction\<close>

text \<open>The test \<^verbatim>\<open>!(permissions & flag)\<close> reads exactly the bit of the flag.\<close>

lemma js_band_flag: "n < 32 \<Longrightarrow> (js_band p (push_bit n 1) = 0) = (\<not> bit p n)"
proof -
  assume n: "n < 32"
  have "(js_band p (push_bit n 1) = 0) = ((word_of_int p :: 32 word) AND 2 ^ n = 0)"
    by (simp add: js_band_def signed_eq_0_iff)
  also have "\<dots> = (\<not> bit (word_of_int p :: 32 word) n)"
    by (simp add: and_exp_eq_0_iff_not_bit)
  also have "\<dots> = (\<not> bit p n)"
    using n by (simp add: bit_word_of_int_iff)
  finally show ?thesis .
qed

text \<open>An agent that holds \<open>CAN_SWAP\<close> gets its swap through.\<close>

lemma executeAction_swap_allowed:
  "executeAction agent_swapper ''swap'' (Some swap_payload) =
     ([ConsoleLog ''[Mesh] Executing action swap for agent AgentB'' [],
       ConsoleLog ''[Mesh] Would execute swap'' [None, None, Some (JNum 1000000000)]],
      Inr ''simulated-swap-tx-signature'')"
  by (simp add: executeAction_def agent_swapper_def agent_b_def swap_payload_def js_band_def
      CAN_SWAP_def)

text \<open>
  C8. executeAction tests the flag of the action kind before it does anything for the
  action: a swap by an agent without bit 0 (\<open>CAN_SWAP\<close>) and a transfer by an agent
  without bit 1 (\<open>CAN_TRANSFER\<close>) throw the permission error having only logged the
  entry line, and an action that is neither throws \<open>Unknown action\<close>.
\<close>

theorem executeAction_permission_gate:
  "(\<not> bit (cfg_permissions agentConfig) 0 \<longrightarrow>
      executeAction agentConfig ''swap'' params =
        ([ConsoleLog (''[Mesh] Executing action swap for agent '' @
                      cfg_agentWallet agentConfig) []],
         Inl (Error ''Agent does not have CAN_SWAP permission''))) \<and>
   (\<not> bit (cfg_permissions agentConfig) 1 \<longrightarrow>
      executeAction agentConfig ''transfer'' params =
        ([ConsoleLog (''[Mesh] Executing action transfer for agent '' @
                      cfg_agentWallet agentConfig) []],
         Inl (Error ''Agent does not have CAN_TRANSFER permission''))) \<and>
   (action \<noteq> ''swap'' \<and> action \<noteq> ''transfer'' \<longrightarrow>
      executeAction agentConfig action params =
        ([ConsoleLog (''[Mesh] Executing action '' @ action @ '' for agent '' @
                      cfg_agentWallet agentConfig) []],
         Inl (Error (''Unknown action: '' @ action))))"
  using js_band_flag [of 0 "cfg_permissions agentConfig"]
    js_band_flag [of 1 "cfg_permissions agentConfig"]
  by (simp add: executeAction_def CAN_SWAP_def CAN_TRANSFER_def)

text \<open>
  C8, at an agent whose mask is \<open>CAN_CREATE_INTENT | CAN_ACCEPT_INTENT\<close>: its swap and
  its transfer are refused, and \<open>stake\<close> is unknown.
\<close>

theorem executeAction_permission_gate_witness:
  "\<not> bit (cfg_permissions agent_b) 0 \<and> \<not> bit (cfg_permissions agent_b) 1 \<and>
   executeAction agent_b ''swap'' (Some swap_payload) =
     ([ConsoleLog ''[Mesh] Executing action swap for agent AgentB'' []],
      Inl (Error ''Agent does not have CAN_SWAP permission'')) \<and>
   executeAction agent_b ''transfer'' (Some swap_payload) =
     ([ConsoleLog ''[Mesh] Executing action transfer for agent AgentB'' []],
      Inl (Error ''Agent does not have CAN_TRANSFER permission'')) \<and>
   executeAction agent_b ''stake'' (Some swap_payload) =
     ([ConsoleLog ''[Mesh] Executing action stake for agent AgentB'' []],
      Inl (Error ''Unknown action: stake''))"
proof -
  have a: "\<not> bit (cfg_permissions agent_b) 0" and b: "\<not> bit (cfg_permissions agent_b) 1"
    by (simp_all add: agent_b_def bit_iff_odd)
  have c: "cfg_agentWallet agent_b = ''AgentB''"
    by (simp add: agent_b_def)
  show ?thesis
    using executeAction_permission_gate [of agent_b "Some swap_payload" "''stake''"] a b c
    by simp
qed

section \<open>The intent endpoints of the server\<close>

text \<open>
  C2, refuted on the server. The accepted intent of the run is accepted a second time with
  status 200, and after it is completed a further update writes \<open>pending\<close> over
  \<open>completed\<close>, which is none of the four transitions of the specification.
\<close>

theorem put_intent_status_no_transition_check_counterexample:
  "map_option intent_status (intents run_accepted ''id-1'') = Some (Some (JStr ''accepted'')) \<and>
   status_code (snd (put_intent_status env_c ''id-1'' (status_request ''accepted'') run_accepted))
     = 200 \<and>
   map_option intent_status (intents run_completed ''id-1'') = Some (Some (JStr ''completed'')) \<and>
   status_code (snd (put_intent_status env_c ''id-1'' (status_request ''pending'') run_completed))
     = 200 \<and>
   map_option intent_status
     (intents (fst (put_intent_status env_c ''id-1'' (status_request ''pending'') run_completed))
        ''id-1'') = Some (Some (JStr ''pending'')) \<and>
   \<not> spec_legal_transition ''completed'' ''pending''"
  by (simp add: run_defs handler_defs spec_legal_transition_def)

text \<open>
  C2, as the server has it. The status update answers 404 for an unknown intent and 400
  for a missing or falsy status, both without a change of the store; for a known intent
  and a truthy status it answers 200 and stores the status of the request, whatever the
  status was before.
\<close>

theorem put_intent_status_writes_status:
  "(iid \<notin> dom (intents st) \<longrightarrow>
      put_intent_status e iid body st = (st, ErrorReply 404 ''Intent not found'')) \<and>
   (iid \<in> dom (intents st) \<and> js_not (field body ''status'') \<longrightarrow>
      put_intent_status e iid body st = (st, ErrorReply 400 ''status required'')) \<and>
   (iid \<in> dom (intents st) \<and> truthy (field body ''status'') \<longrightarrow>
      status_code (snd (put_intent_status e iid body st)) = 200 \<and>
      map_option intent_status (intents (fst (put_intent_status e iid body st)) iid) =
        Some (field body ''status''))"
  by (auto simp add: put_intent_status_def js_not_def Let_def split: option.splits)

text \<open>C2, as the server has it, at the empty store and at the completed intent of the run.\<close>

theorem put_intent_status_writes_status_witness:
  "''id-1'' \<notin> dom (intents empty_server) \<and>
   put_intent_status env_c ''id-1'' (status_request ''accepted'') empty_server =
     (empty_server, ErrorReply 404 ''Intent not found'') \<and>
   ''id-1'' \<in> dom (intents run_completed) \<and> js_not (field (JObj []) ''status'') \<and>
   put_intent_status env_c ''id-1'' (JObj []) run_completed =
     (run_completed, ErrorReply 400 ''status required'') \<and>
   truthy (field (status_request ''pending'') ''status'') \<and>
   status_code (snd (put_intent_status env_c ''id-1'' (status_request ''pending'') run_completed))
     = 200 \<and>
   map_option intent_status
     (intents (fst (put_intent_status env_c ''id-1'' (status_request ''pending'') run_completed))
        ''id-1'') = Some (Some (JStr ''pending''))"
proof -
  have a: "''id-1'' \<notin> dom (intents empty_server)"
    by (simp add: empty_server_def)
  have b: "''id-1'' \<in> dom (intents run_completed)"
    by (simp add: run_defs handler_defs)
  have c: "js_not (field (JObj []) ''status'')"
    "truthy (field (status_request ''pending'') ''status'')"
    "field (status_request ''pending'') ''status'' = Some (JStr ''pending'')"
    by (simp_all add: js_not_def status_request_def)
  show ?thesis
    using
      put_intent_status_writes_status
        [of "''id-1''" empty_server env_c "status_request ''accepted''"]
      put_intent_status_writes_status [of "''id-1''" run_completed env_c "JObj []"]
      put_intent_status_writes_status
        [of "''id-1''" run_completed env_c "status_request ''pending''"]
      a b c
    by simp
qed

text \<open>
  C3, refuted on the server. No agent is registered, so the sender holds no flag; it sends
  an intent to itself with the empty object as payload and a payment of \<open>-1\<close>, and the
  intent is created with status 201 and stored as sent.
\<close>

theorem post_intents_unchecked_counterexample:
  "agents empty_server = Map.empty \<and>
   status_code (snd (post_intents env_a self_intent_request empty_server)) = 201 \<and>
   map_option intent_fromAgent
     (intents (fst (post_intents env_a self_intent_request empty_server)) ''id-1'') =
     Some (Some (JStr ''agent-x'')) \<and>
   map_option intent_toAgent
     (intents (fst (post_intents env_a self_intent_request empty_server)) ''id-1'') =
     Some (Some (JStr ''agent-x'')) \<and>
   map_option intent_payload
     (intents (fst (post_intents env_a self_intent_request empty_server)) ''id-1'') =
     Some (Some (JObj [])) \<and>
   map_option intent_paymentAmount
     (intents (fst (post_intents env_a self_intent_request empty_server)) ''id-1'') =
     Some (Some (JNum (- 1)))"
  by (simp add: run_defs handler_defs)

text \<open>
  C3, as the server has it. Creation checks, before it stores anything, that
  \<open>fromAgent\<close>, \<open>toAgent\<close> and \<open>payload\<close> are present and truthy: if one is not, the
  answer is 400 and the store is unchanged; if all are, the answer is 201 and a pending
  intent is stored that carries the three fields as sent and the payment as sent, or 0 for
  a missing or falsy payment.
\<close>

theorem post_intents_requires_three_fields:
  "(js_not (field body ''fromAgent'') \<or> js_not (field body ''toAgent'') \<or>
    js_not (field body ''payload'') \<longrightarrow>
      post_intents e body st =
        (st, ErrorReply 400 ''fromAgent, toAgent, and payload required'')) \<and>
   (truthy (field body ''fromAgent'') \<and> truthy (field body ''toAgent'') \<and>
    truthy (field body ''payload'') \<longrightarrow>
      status_code (snd (post_intents e body st)) = 201 \<and>
      map_option intent_status (intents (fst (post_intents e body st)) (randomUUID e)) =
        Some (Some (JStr ''pending'')) \<and>
      map_option intent_fromAgent (intents (fst (post_intents e body st)) (randomUUID e)) =
        Some (field body ''fromAgent'') \<and>
      map_option intent_toAgent (intents (fst (post_intents e body st)) (randomUUID e)) =
        Some (field body ''toAgent'') \<and>
      map_option intent_payload (intents (fst (post_intents e body st)) (randomUUID e)) =
        Some (field body ''payload'') \<and>
      map_option intent_paymentAmount (intents (fst (post_intents e body st)) (randomUUID e)) =
        Some (js_or (field body ''paymentAmount'') (Some (JNum 0))))"
  by (auto simp add: post_intents_def js_not_def Let_def split: option.splits)

text \<open>
  C3, as the server has it, at a request with the empty string as payload and at the
  request of the run.
\<close>

theorem post_intents_requires_three_fields_witness:
  "js_not (field empty_payload_request ''payload'') \<and>
   post_intents env_a empty_payload_request run_created =
     (run_created, ErrorReply 400 ''fromAgent, toAgent, and payload required'') \<and>
   truthy (field intent_request ''fromAgent'') \<and> truthy (field intent_request ''toAgent'') \<and>
   truthy (field intent_request ''payload'') \<and>
   status_code (snd (post_intents env_a intent_request empty_server)) = 201 \<and>
   map_option intent_status
     (intents (fst (post_intents env_a intent_request empty_server)) ''id-1'') =
     Some (Some (JStr ''pending'')) \<and>
   map_option intent_paymentAmount
     (intents (fst (post_intents env_a intent_request empty_server)) ''id-1'') =
     Some (Some (JNum 1000))"
proof -
  have a: "js_not (field empty_payload_request ''payload'')"
    by (simp add: empty_payload_request_def js_not_def)
  have b: "truthy (field intent_request ''fromAgent'')"
    "truthy (field intent_request ''toAgent'')"
    "truthy (field intent_request ''payload'')"
    "js_or (field intent_request ''paymentAmount'') (Some (JNum 0)) = Some (JNum 1000)"
    by (simp_all add: intent_request_def swap_payload_def js_or_def)
  have c: "randomUUID env_a = ''id-1''"
    by (simp add: env_a_def)
  show ?thesis
    using post_intents_requires_three_fields [of empty_payload_request env_a run_created]
      post_intents_requires_three_fields [of intent_request env_a empty_server] a b c
    by simp
qed

text \<open>
  C4, refuted on the server. The completed intent of the run has no result digest, since
  the request that completed it carried no result; and the intent that failed with a
  result has a result digest. Both break the invariant of the specification.
\<close>

theorem resultHash_not_tied_to_status_counterexample:
  "map_option intent_status (intents run_completed ''id-1'') = Some (Some (JStr ''completed'')) \<and>
   map_option intent_resultHash (intents run_completed ''id-1'') = Some None \<and>
   map_option spec_result_invariant (intents run_completed ''id-1'') = Some False \<and>
   map_option intent_status (intents run_failed ''id-1'') = Some (Some (JStr ''failed'')) \<and>
   map_option intent_resultHash (intents run_failed ''id-1'') =
     Some (Some (payloadDigest_hex (JObj [(''error'', JStr ''timeout'')]))) \<and>
   map_option spec_result_invariant (intents run_failed ''id-1'') = Some False"
  by (simp add: run_defs handler_defs spec_result_invariant_def)

text \<open>
  C4, as the server has it. A created intent has no result digest. A status update of a
  known intent sets the result digest to the digest of the request's result when the
  request carries a truthy result, and leaves it as it was otherwise; the status plays no
  part.
\<close>

theorem resultHash_follows_result:
  "(truthy (field body ''fromAgent'') \<and> truthy (field body ''toAgent'') \<and>
    truthy (field body ''payload'') \<longrightarrow>
      map_option intent_resultHash (intents (fst (post_intents e body st)) (randomUUID e)) =
        Some None) \<and>
   (iid \<in> dom (intents st) \<and> truthy (field body' ''status'') \<longrightarrow>
      map_option intent_resultHash (intents (fst (put_intent_status e iid body' st)) iid) =
        (case field body' ''result'' of
           None \<Rightarrow> map_option intent_resultHash (intents st iid)
         | Some r \<Rightarrow>
             if truthy (Some r) then Some (Some (payloadDigest_hex r))
             else map_option intent_resultHash (intents st iid)))"
  by (auto simp add: post_intents_def put_intent_status_def js_not_def Let_def
      split: option.splits)

text \<open>
  C4, as the server has it, along the run: created, completed without a result, failed
  with a result.
\<close>

theorem resultHash_follows_result_witness:
  "truthy (field intent_request ''fromAgent'') \<and> truthy (field intent_request ''toAgent'') \<and>
   truthy (field intent_request ''payload'') \<and>
   map_option intent_resultHash (intents run_created ''id-1'') = Some None \<and>
   ''id-1'' \<in> dom (intents run_accepted) \<and>
   truthy (field (status_request ''completed'') ''status'') \<and>
   map_option intent_resultHash (intents run_completed ''id-1'') = Some None \<and>
   truthy (field failed_with_result_request ''status'') \<and>
   map_option intent_resultHash (intents run_failed ''id-1'') =
     Some (Some (payloadDigest_hex (JObj [(''error'', JStr ''timeout'')])))"
proof -
  have a: "truthy (field intent_request ''fromAgent'')"
    "truthy (field intent_request ''toAgent'')"
    "truthy (field intent_request ''payload'')"
    by (simp_all add: intent_request_def swap_payload_def)
  have b: "''id-1'' \<in> dom (intents run_accepted)"
    "map_option intent_resultHash (intents run_accepted ''id-1'') = Some None"
    by (simp_all add: run_defs handler_defs)
  have c: "truthy (field (status_request ''completed'') ''status'')"
    "field (status_request ''completed'') ''result'' = None"
    "truthy (field failed_with_result_request ''status'')"
    "field failed_with_result_request ''result'' = Some (JObj [(''error'', JStr ''timeout'')])"
    by (simp_all add: status_request_def failed_with_result_request_def)
  have d: "randomUUID env_a = ''id-1''"
    by (simp add: env_a_def)
  show ?thesis
    using
      resultHash_follows_result [where body = intent_request and e = env_a and st = empty_server]
      resultHash_follows_result
        [where e = env_c and st = run_accepted and iid = "''id-1''"
           and body' = "status_request ''completed''"]
      resultHash_follows_result
        [where e = env_c and st = run_accepted and iid = "''id-1''"
           and body' = failed_with_result_request]
      a b c d
    by (simp add: run_created_def run_completed_def run_failed_def)
qed

text \<open>
  C7, refuted on the server. Two creations for the same pair of agents in the same
  millisecond both answer 201, and both intents are stored with the same nonce: nothing
  compares the new intent with the stored ones.
\<close>

theorem post_intents_nonce_repeats_counterexample:
  "status_code (snd (post_intents env_a intent_request empty_server)) = 201 \<and>
   status_code (snd (post_intents env_b intent_request run_created)) = 201 \<and>
   map_option intent_fromAgent (intents run_created_twice ''id-1'') =
     map_option intent_fromAgent (intents run_created_twice ''id-2'') \<and>
   map_option intent_toAgent (intents run_created_twice ''id-1'') =
     map_option intent_toAgent (intents run_created_twice ''id-2'') \<and>
   map_option intent_nonce (intents run_created_twice ''id-1'') = Some 1700000000000 \<and>
   map_option intent_nonce (intents run_created_twice ''id-2'') = Some 1700000000000"
  by (simp add: run_defs handler_defs)

text \<open>
  C7, as the server has it. The nonce of a created intent is the clock reading
  \<^verbatim>\<open>Date.now()\<close> of its creation, so two creations have different nonces when their
  clock readings differ. The intent is stored under its fresh identifier, and the intents
  stored under every other identifier are as before.
\<close>

theorem post_intents_nonce_is_clock:
  "truthy (field body ''fromAgent'') \<and> truthy (field body ''toAgent'') \<and>
   truthy (field body ''payload'') \<longrightarrow>
     map_option intent_nonce (intents (fst (post_intents e body st)) (randomUUID e)) =
       Some (Date_now e) \<and>
     (\<forall>k. k \<noteq> randomUUID e \<longrightarrow> intents (fst (post_intents e body st)) k = intents st k)"
  by (auto simp add: post_intents_def js_not_def Let_def split: option.splits)

text \<open>C7, as the server has it, at the second creation of the run.\<close>

theorem post_intents_nonce_is_clock_witness:
  "truthy (field intent_request ''fromAgent'') \<and> truthy (field intent_request ''toAgent'') \<and>
   truthy (field intent_request ''payload'') \<and>
   map_option intent_nonce (intents run_created_twice ''id-2'') = Some 1700000000000 \<and>
   intents run_created_twice ''id-1'' = intents run_created ''id-1'' \<and>
   intents run_created ''id-1'' \<noteq> None"
proof -
  have a: "truthy (field intent_request ''fromAgent'')"
    "truthy (field intent_request ''toAgent'')"
    "truthy (field intent_request ''payload'')"
    by (simp_all add: intent_request_def swap_payload_def)
  have b: "randomUUID env_b = ''id-2''" "Date_now env_b = 1700000000000"
    by (simp_all add: env_b_def)
  have c: "intents run_created ''id-1'' \<noteq> None"
    by (simp add: run_defs handler_defs)
  show ?thesis
    using post_intents_nonce_is_clock [of intent_request env_b run_created] a b c
    by (simp add: run_created_twice_def)
qed

section \<open>The registries of the server\<close>

text \<open>
  C9. An update of a stored model profile answers 200 and leaves \<open>label\<close>,
  \<open>providerUri\<close>, \<open>billingWallet\<close>, \<open>maxTokensPerDay\<close> and \<open>maxRequestsPerMin\<close> as
  stored when the request gives the field a falsy value (0, the empty string, null, false)
  or no value, while \<open>pricing\<close> takes every value the request gives it, 0 among them.
\<close>

theorem put_model_profile_ignores_falsy:
  assumes "pid \<in> dom (modelProfiles st)"
  shows "status_code (snd (put_model_profile e pid body st)) = 200 \<and>
     (\<not> truthy (field body ''label'') \<longrightarrow>
        map_option profile_label
          (modelProfiles (fst (put_model_profile e pid body st)) pid) =
        map_option profile_label (modelProfiles st pid)) \<and>
     (\<not> truthy (field body ''providerUri'') \<longrightarrow>
        map_option profile_providerUri
          (modelProfiles (fst (put_model_profile e pid body st)) pid) =
        map_option profile_providerUri (modelProfiles st pid)) \<and>
     (\<not> truthy (field body ''billingWallet'') \<longrightarrow>
        map_option profile_billingWallet
          (modelProfiles (fst (put_model_profile e pid body st)) pid) =
        map_option profile_billingWallet (modelProfiles st pid)) \<and>
     (\<not> truthy (field body ''maxTokensPerDay'') \<longrightarrow>
        map_option profile_maxTokensPerDay
          (modelProfiles (fst (put_model_profile e pid body st)) pid) =
        map_option profile_maxTokensPerDay (modelProfiles st pid)) \<and>
     (\<not> truthy (field body ''maxRequestsPerMin'') \<longrightarrow>
        map_option profile_maxRequestsPerMin
          (modelProfiles (fst (put_model_profile e pid body st)) pid) =
        map_option profile_maxRequestsPerMin (modelProfiles st pid)) \<and>
     (field body ''pricing'' \<noteq> None \<longrightarrow>
        map_option profile_pricing
          (modelProfiles (fst (put_model_profile e pid body st)) pid) =
        Some (field body ''pricing''))"
  using assms by (auto simp add: put_model_profile_def Let_def)

text \<open>
  C9, at the profile of the run and an update that gives 0 to both caps and to the
  pricing, the empty string to label and provider and no billing wallet: only the pricing
  changes, from 100 to 0.
\<close>

theorem put_model_profile_ignores_falsy_witness:
  "''id-1'' \<in> dom (modelProfiles run_profile) \<and>
   field zero_update_request ''label'' = Some (JStr []) \<and>
   field zero_update_request ''providerUri'' = Some (JStr []) \<and>
   field zero_update_request ''maxTokensPerDay'' = Some (JNum 0) \<and>
   field zero_update_request ''maxRequestsPerMin'' = Some (JNum 0) \<and>
   field zero_update_request ''pricing'' = Some (JNum 0) \<and>
   map_option profile_label
     (modelProfiles (fst (put_model_profile env_c ''id-1'' zero_update_request run_profile))
        ''id-1'') = Some (Some (JStr ''cheap-llm'')) \<and>
   map_option profile_providerUri
     (modelProfiles (fst (put_model_profile env_c ''id-1'' zero_update_request run_profile))
        ''id-1'') = Some (Some (JStr ''https://mesh-gateway.example.com/cheap'')) \<and>
   field zero_update_request ''billingWallet'' = None \<and>
   map_option profile_billingWallet
     (modelProfiles (fst (put_model_profile env_c ''id-1'' zero_update_request run_profile))
        ''id-1'') = Some (Some (JStr ''Demo1'')) \<and>
   map_option profile_maxTokensPerDay
     (modelProfiles (fst (put_model_profile env_c ''id-1'' zero_update_request run_profile))
        ''id-1'') = Some (Some (JNum 10000000)) \<and>
   map_option profile_maxRequestsPerMin
     (modelProfiles (fst (put_model_profile env_c ''id-1'' zero_update_request run_profile))
        ''id-1'') = Some (Some (JNum 100)) \<and>
   map_option profile_pricing (modelProfiles run_profile ''id-1'') = Some (Some (JNum 100)) \<and>
   map_option profile_pricing
     (modelProfiles (fst (put_model_profile env_c ''id-1'' zero_update_request run_profile))
        ''id-1'') = Some (Some (JNum 0))"
proof -
  have a: "''id-1'' \<in> dom (modelProfiles run_profile)"
    by (simp add: run_defs handler_defs)
  have b: "field zero_update_request ''label'' = Some (JStr [])"
    "field zero_update_request ''providerUri'' = Some (JStr [])"
    "field zero_update_request ''billingWallet'' = None"
    "field zero_update_request ''maxTokensPerDay'' = Some (JNum 0)"
    "field zero_update_request ''maxRequestsPerMin'' = Some (JNum 0)"
    "field zero_update_request ''pricing'' = Some (JNum 0)"
    by (simp_all add: zero_update_request_def)
  have c: "map_option profile_label (modelProfiles run_profile ''id-1'') =
       Some (Some (JStr ''cheap-llm''))"
    "map_option profile_providerUri (modelProfiles run_profile ''id-1'') =
       Some (Some (JStr ''https://mesh-gateway.example.com/cheap''))"
    "map_option profile_billingWallet (modelProfiles run_profile ''id-1'') =
       Some (Some (JStr ''Demo1''))"
    "map_option profile_maxTokensPerDay (modelProfiles run_profile ''id-1'') =
       Some (Some (JNum 10000000))"
    "map_option profile_maxRequestsPerMin (modelProfiles run_profile ''id-1'') =
       Some (Some (JNum 100))"
    "map_option profile_pricing (modelProfiles run_profile ''id-1'') = Some (Some (JNum 100))"
    by (simp_all add: run_defs handler_defs)
  show ?thesis
    using put_model_profile_ignores_falsy [OF a, of env_c zero_update_request] a b c
    by simp
qed

text \<open>
  C10, refuted on the server. A registration that supplies both wallets, a model profile
  and a metadata locator and omits the permissions creates an agent with mask 0 that has
  the supplied model profile and locator, not null and the empty string.
\<close>

theorem post_agents_keeps_supplied_profile_counterexample:
  "truthy (field agent_request_with_profile ''ownerWallet'') \<and>
   truthy (field agent_request_with_profile ''agentWallet'') \<and>
   field agent_request_with_profile ''permissions'' = None \<and>
   status_code (snd (post_agents env_a agent_request_with_profile empty_server)) = 201 \<and>
   map_option agent_permissions
     (agents (fst (post_agents env_a agent_request_with_profile empty_server)) ''id-1'') =
     Some (Some (JNum 0)) \<and>
   map_option agent_modelProfile
     (agents (fst (post_agents env_a agent_request_with_profile empty_server)) ''id-1'') =
     Some (Some (JStr ''cheap-llm-profile'')) \<and>
   map_option agent_metadataUri
     (agents (fst (post_agents env_a agent_request_with_profile empty_server)) ''id-1'') =
     Some (Some (JStr ''https://mesh.example.com/agents/research.json''))"
  by (simp add: run_defs handler_defs)

text \<open>
  C10, as the server has it. A registration without a truthy \<open>ownerWallet\<close> or
  \<open>agentWallet\<close> answers 400 and stores nothing. Otherwise it answers 201, and in the
  created agent each of the three optional fields the request omits has its default: the
  mask 0 for \<open>permissions\<close>, null for \<open>modelProfile\<close>, the empty string for
  \<open>metadataUri\<close>. The mask 0 holds no flag.
\<close>

theorem post_agents_defaults:
  "(js_not (field body ''ownerWallet'') \<or> js_not (field body ''agentWallet'') \<longrightarrow>
      post_agents e body st = (st, ErrorReply 400 ''ownerWallet and agentWallet required'')) \<and>
   (truthy (field body ''ownerWallet'') \<and> truthy (field body ''agentWallet'') \<longrightarrow>
      status_code (snd (post_agents e body st)) = 201 \<and>
      (field body ''permissions'' = None \<longrightarrow>
         map_option agent_permissions (agents (fst (post_agents e body st)) (randomUUID e)) =
           Some (Some (JNum 0))) \<and>
      (field body ''modelProfile'' = None \<longrightarrow>
         map_option agent_modelProfile (agents (fst (post_agents e body st)) (randomUUID e)) =
           Some (Some JNull)) \<and>
      (field body ''metadataUri'' = None \<longrightarrow>
         map_option agent_metadataUri (agents (fst (post_agents e body st)) (randomUUID e)) =
           Some (Some (JStr [])))) \<and>
   js_band 0 flag = 0"
  by (auto simp add: post_agents_def js_not_def js_or_def js_band_def Let_def)

text \<open>
  C10, as the server has it, at a request without \<open>agentWallet\<close> and at a request with
  the two wallets only.
\<close>

theorem post_agents_defaults_witness:
  "js_not (field agent_request_no_wallet ''agentWallet'') \<and>
   post_agents env_a agent_request_no_wallet empty_server =
     (empty_server, ErrorReply 400 ''ownerWallet and agentWallet required'') \<and>
   truthy (field agent_request ''ownerWallet'') \<and> truthy (field agent_request ''agentWallet'') \<and>
   field agent_request ''permissions'' = None \<and> field agent_request ''modelProfile'' = None \<and>
   field agent_request ''metadataUri'' = None \<and>
   status_code (snd (post_agents env_a agent_request empty_server)) = 201 \<and>
   map_option agent_permissions
     (agents (fst (post_agents env_a agent_request empty_server)) ''id-1'') =
     Some (Some (JNum 0)) \<and>
   map_option agent_modelProfile
     (agents (fst (post_agents env_a agent_request empty_server)) ''id-1'') =
     Some (Some JNull) \<and>
   map_option agent_metadataUri
     (agents (fst (post_agents env_a agent_request empty_server)) ''id-1'') =
     Some (Some (JStr [])) \<and>
   js_band 0 CAN_CREATE_INTENT = 0"
proof -
  have a: "js_not (field agent_request_no_wallet ''agentWallet'')"
    by (simp add: agent_request_no_wallet_def js_not_def)
  have b: "truthy (field agent_request ''ownerWallet'')"
    "truthy (field agent_request ''agentWallet'')"
    "field agent_request ''permissions'' = None" "field agent_request ''modelProfile'' = None"
    "field agent_request ''metadataUri'' = None"
    by (simp_all add: agent_request_def)
  have c: "randomUUID env_a = ''id-1''"
    by (simp add: env_a_def)
  show ?thesis
    using post_agents_defaults [of agent_request_no_wallet env_a empty_server CAN_CREATE_INTENT]
      post_agents_defaults [of agent_request env_a empty_server CAN_CREATE_INTENT] a b c
    by simp
qed

section \<open>The nonce seed of getIntentPDA\<close>

lemma length_le_bytes: "length (le_bytes k v) = k"
  by (induction k arbitrary: v) simp_all

lemma le_value_le_bytes: "0 \<le> v \<Longrightarrow> le_value (le_bytes k v) = v mod 256 ^ k"
proof (induction k arbitrary: v)
  case 0
  then show ?case by simp
next
  case (Suc k)
  have low: "uint (word_of_int (v mod 256) :: byte) = v mod 256"
    by (simp add: uint_word_of_int take_bit_eq_mod)
  have rest: "0 \<le> v div 256"
    using Suc.prems by simp
  have "le_value (le_bytes (Suc k) v) = v mod 256 + 256 * ((v div 256) mod 256 ^ k)"
    using Suc.IH [OF rest] low by simp
  also have "\<dots> = v mod 256 ^ Suc k"
    using zmod_zmult2_eq [of "256 ^ k" v 256] by simp
  finally show ?case .
qed

lemma le_bytes_8:
  "le_bytes 8 v =
     [word_of_int (v mod 256),
      word_of_int (v div 256 mod 256),
      word_of_int (v div 256 div 256 mod 256),
      word_of_int (v div 256 div 256 div 256 mod 256),
      word_of_int (v div 256 div 256 div 256 div 256 mod 256),
      word_of_int (v div 256 div 256 div 256 div 256 div 256 mod 256),
      word_of_int (v div 256 div 256 div 256 div 256 div 256 div 256 mod 256),
      word_of_int (v div 256 div 256 div 256 div 256 div 256 div 256 div 256 mod 256)]"
  by (simp add: eval_nat_numeral)

text \<open>The address derivation hands on exactly the seeds of \<open>intent_seeds\<close>.\<close>

lemma getIntentPDA_seeds:
  "getIntentPDA derive fromAgent toAgent nonce =
     map_sum id derive (intent_seeds fromAgent toAgent nonce)"
  by (simp add: getIntentPDA_def split: sum.splits)

text \<open>
  C6, refuted on the controller. For the nonce 1 the fourth seed is the byte 1 followed
  by seven zero bytes, which is not the big-endian encoding (seven zero bytes, then 1).
  The encoding does not keep the order either: 1 is below 256, but its bytes come after
  those of 256 in byte order.
\<close>

theorem intent_seeds_nonce_big_endian_counterexample:
  "intent_seeds (replicate 32 1) (replicate 32 2) 1 =
     Inr [bytes_of ''intent'', replicate 32 1, replicate 32 2, [1, 0, 0, 0, 0, 0, 0, 0]] \<and>
   be_bytes 8 1 = [0, 0, 0, 0, 0, 0, 0, 1] \<and>
   intent_seeds (replicate 32 1) (replicate 32 2) 1 \<noteq>
     Inr [bytes_of ''intent'', replicate 32 1, replicate 32 2, be_bytes 8 1] \<and>
   le_bytes 8 1 = [1, 0, 0, 0, 0, 0, 0, 0] \<and> le_bytes 8 256 = [0, 1, 0, 0, 0, 0, 0, 0]"
  by (simp add: intent_seeds_def writeBigUInt64LE_def le_bytes_8) (simp add: eval_nat_numeral)

text \<open>
  C6, as the controller has it. For a nonce from 0 to \<open>2^64 - 1\<close> the seeds are the text
  \<open>intent\<close>, the two agents and the nonce as exactly 8 bytes in little-endian order: read
  lowest byte first, they give the nonce back. Outside that range the encoding throws a
  RangeError and no address is derived.
\<close>

theorem intent_seeds_nonce_little_endian:
  "(nonce < 0 \<or> 2 ^ 64 \<le> nonce \<longrightarrow>
      intent_seeds fromAgent toAgent nonce =
        Inl (RangeError ''The value of value is out of range.'')) \<and>
   (0 \<le> nonce \<and> nonce < 2 ^ 64 \<longrightarrow>
      intent_seeds fromAgent toAgent nonce =
        Inr [bytes_of ''intent'', fromAgent, toAgent, le_bytes 8 nonce] \<and>
      length (le_bytes 8 nonce) = 8 \<and>
      le_value (le_bytes 8 nonce) = nonce)"
  using le_value_le_bytes [of nonce 8]
  by (auto simp add: intent_seeds_def writeBigUInt64LE_def length_le_bytes)

text \<open>C6, as the controller has it, at the clock reading of the runs and at \<open>-1\<close>.\<close>

theorem intent_seeds_nonce_little_endian_witness:
  "(0::int) \<le> 1700000000000 \<and> (1700000000000::int) < 2 ^ 64 \<and>
   intent_seeds (replicate 32 1) (replicate 32 2) 1700000000000 =
     Inr [bytes_of ''intent'', replicate 32 1, replicate 32 2,
          [0, 104, 229, 207, 139, 1, 0, 0]] \<and>
   le_value [0, 104, 229, 207, 139, 1, 0, 0] = 1700000000000 \<and>
   (- 1 :: int) < 0 \<and>
   intent_seeds (replicate 32 1) (replicate 32 2) (- 1) =
     Inl (RangeError ''The value of value is out of range.'')"
  using intent_seeds_nonce_little_endian [of 1700000000000 "replicate 32 1" "replicate 32 2"]
    intent_seeds_nonce_little_endian [of "- 1" "replicate 32 1" "replicate 32 2"]
  by (simp add: intent_seeds_def writeBigUInt64LE_def le_bytes_8)

section \<open>The payload digest\<close>

subsection \<open>Keys can be read back from a serialization\<close>













subsection \<open>The digest and the order of the keys\<close>






end
